theory Spec2Isabelle
  imports Main "HOL-Library.Word"
begin

unbundle bit_operations_syntax

section \<open>The COFF object writer of binaryToObject/pe.cpp\<close>

text \<open>
  The file embeds \<^verbatim>\<open>src/binaryToObject/pe.cpp\<close>: the packed COFF structures, the
  helper \<^verbatim>\<open>pad\<close>, the serialiser \<^verbatim>\<open>writeObject\<close> and the method
  \<^verbatim>\<open>WindowsPlatform<BytesPerWord>::PEObjectWriter::write\<close>.

  Conventions of the embedding:
  \<^item> \<^verbatim>\<open>uint8_t\<close>, \<^verbatim>\<open>uint16_t\<close>/\<^verbatim>\<open>int16_t\<close> and
    \<^verbatim>\<open>uint32_t\<close>/\<^verbatim>\<open>unsigned\<close>/\<^verbatim>\<open>int\<close> are words of 8, 16 and 32
    bits; arithmetic wraps, a narrowing conversion is \<open>ucast\<close>. An \<^verbatim>\<open>int\<close> is kept as
    its two's complement bit pattern.
  \<^item> A value of type \<^verbatim>\<open>size_t\<close> (the result of \<^verbatim>\<open>strlen\<close> and
    \<^verbatim>\<open>sizeof\<close>, the parameter \<^verbatim>\<open>size\<close> of \<^verbatim>\<open>write\<close>) is a natural
    number; its conversion to \<^verbatim>\<open>unsigned\<close> or \<^verbatim>\<open>uint32_t\<close> is \<open>of_nat\<close>,
    that is, reduction modulo \<open>2 ^ 32\<close>, whatever the width of \<^verbatim>\<open>size_t\<close> on the host.
  \<^item> A \<^verbatim>\<open>const char*\<close> is the list of characters stored at the pointer; the array ends
    with a NUL that is not part of the list, and a NUL inside the list ends the C string
    early, as it does for \<^verbatim>\<open>strlen\<close>.
  \<^item> \<^verbatim>\<open>const uint8_t* data\<close> is the list of bytes of the buffer it points to.
  \<^item> The structures are \<^verbatim>\<open>__attribute__((packed))\<close> and are written from memory as
    they are; the memory image is little-endian, field after field, without gaps.
\<close>

type_synonym u8 = "8 word"
type_synonym u16 = "16 word"
type_synonym u32 = "32 word"

subsection \<open>Constants (lines 19 to 34)\<close>

definition IMAGE_SIZEOF_SHORT_NAME :: nat where
  "IMAGE_SIZEOF_SHORT_NAME = 8"

definition IMAGE_FILE_RELOCS_STRIPPED :: u32 where
  "IMAGE_FILE_RELOCS_STRIPPED = 1"

definition IMAGE_FILE_LINE_NUMS_STRIPPED :: u32 where
  "IMAGE_FILE_LINE_NUMS_STRIPPED = 4"

definition IMAGE_FILE_MACHINE_AMD64 :: u32 where
  "IMAGE_FILE_MACHINE_AMD64 = 0x8664"

definition IMAGE_FILE_MACHINE_I386 :: u32 where
  "IMAGE_FILE_MACHINE_I386 = 0x014c"

definition IMAGE_FILE_32BIT_MACHINE :: u32 where
  "IMAGE_FILE_32BIT_MACHINE = 256"

definition IMAGE_SCN_ALIGN_1BYTES :: u32 where
  "IMAGE_SCN_ALIGN_1BYTES = 0x100000"

definition IMAGE_SCN_ALIGN_2BYTES :: u32 where
  "IMAGE_SCN_ALIGN_2BYTES = 0x200000"

definition IMAGE_SCN_ALIGN_4BYTES :: u32 where
  "IMAGE_SCN_ALIGN_4BYTES = 0x300000"

definition IMAGE_SCN_ALIGN_8BYTES :: u32 where
  "IMAGE_SCN_ALIGN_8BYTES = 0x400000"

definition IMAGE_SCN_MEM_EXECUTE :: u32 where
  "IMAGE_SCN_MEM_EXECUTE = 0x20000000"

definition IMAGE_SCN_MEM_READ :: u32 where
  "IMAGE_SCN_MEM_READ = 0x40000000"

definition IMAGE_SCN_MEM_WRITE :: u32 where
  "IMAGE_SCN_MEM_WRITE = 0x80000000"

definition IMAGE_SCN_CNT_CODE :: u32 where
  "IMAGE_SCN_CNT_CODE = 32"

subsection \<open>The packed structures (lines 36 to 74)\<close>

record IMAGE_FILE_HEADER =
  Machine :: u16
  NumberOfSections :: u16
  TimeDateStamp :: u32
  PointerToSymbolTable :: u32
  NumberOfSymbols :: u32
  SizeOfOptionalHeader :: u16
  Characteristics :: u16

text \<open>
  \<open>Name\<close> is the array \<^verbatim>\<open>uint8_t Name[IMAGE_SIZEOF_SHORT_NAME]\<close>, a list of 8 bytes;
  \<open>Misc\<close> is the union of \<^verbatim>\<open>PhysicalAddress\<close> and \<^verbatim>\<open>VirtualSize\<close>, one 32-bit
  word. The section header's \<^verbatim>\<open>Characteristics\<close> is named \<open>SectionCharacteristics\<close>
  here, since a record field name is global.
\<close>

record IMAGE_SECTION_HEADER =
  Name :: "u8 list"
  Misc :: u32
  VirtualAddress :: u32
  SizeOfRawData :: u32
  PointerToRawData :: u32
  PointerToRelocations :: u32
  PointerToLinenumbers :: u32
  NumberOfRelocations :: u16
  NumberOfLinenumbers :: u16
  SectionCharacteristics :: u32

text \<open>\<open>Short\<close> and \<open>Long\<close> are the two words of \<^verbatim>\<open>N.Name\<close>.\<close>

record IMAGE_SYMBOL =
  Short :: u32
  Long :: u32
  Value :: u32
  SectionNumber :: u16
  Type :: u16
  StorageClass :: u8
  NumberOfAuxSymbols :: u8

subsection \<open>Memory images\<close>

definition le16 :: "u16 \<Rightarrow> u8 list" where
  "le16 w = [ucast w, ucast (drop_bit 8 w)]"

definition le32 :: "u32 \<Rightarrow> u8 list" where
  "le32 w = [ucast w, ucast (drop_bit 8 w), ucast (drop_bit 16 w), ucast (drop_bit 24 w)]"

definition bytes_IMAGE_FILE_HEADER :: "IMAGE_FILE_HEADER \<Rightarrow> u8 list" where
  "bytes_IMAGE_FILE_HEADER h =
     le16 (Machine h) @ le16 (NumberOfSections h) @ le32 (TimeDateStamp h)
     @ le32 (PointerToSymbolTable h) @ le32 (NumberOfSymbols h)
     @ le16 (SizeOfOptionalHeader h) @ le16 (Characteristics h)"

definition bytes_IMAGE_SECTION_HEADER :: "IMAGE_SECTION_HEADER \<Rightarrow> u8 list" where
  "bytes_IMAGE_SECTION_HEADER h =
     Name h @ le32 (Misc h) @ le32 (VirtualAddress h) @ le32 (SizeOfRawData h)
     @ le32 (PointerToRawData h) @ le32 (PointerToRelocations h)
     @ le32 (PointerToLinenumbers h) @ le16 (NumberOfRelocations h)
     @ le16 (NumberOfLinenumbers h) @ le32 (SectionCharacteristics h)"

definition bytes_IMAGE_SYMBOL :: "IMAGE_SYMBOL \<Rightarrow> u8 list" where
  "bytes_IMAGE_SYMBOL s =
     le32 (Short s) @ le32 (Long s) @ le32 (Value s) @ le16 (SectionNumber s)
     @ le16 (Type s) @ [StorageClass s] @ [NumberOfAuxSymbols s]"

text \<open>\<^verbatim>\<open>sizeof\<close> of the three packed structures.\<close>

definition sizeof_IMAGE_FILE_HEADER :: nat where
  "sizeof_IMAGE_FILE_HEADER = 20"

definition sizeof_IMAGE_SECTION_HEADER :: nat where
  "sizeof_IMAGE_SECTION_HEADER = 40"

definition sizeof_IMAGE_SYMBOL :: nat where
  "sizeof_IMAGE_SYMBOL = 18"

subsection \<open>C strings and the two library calls\<close>

definition NUL :: char where
  "NUL = CHR 0x00"

text \<open>The C string at a \<^verbatim>\<open>const char*\<close>: the characters before the first NUL.\<close>

definition c_str :: "string \<Rightarrow> string" where
  "c_str s = takeWhile (\<lambda>c. c \<noteq> NUL) s"

definition strlen :: "string \<Rightarrow> nat" where
  "strlen s = length (c_str s)"

text \<open>The bytes of the character array at a \<^verbatim>\<open>const char*\<close>, with the final NUL.\<close>

definition c_array :: "string \<Rightarrow> u8 list" where
  "c_array s = map of_char s @ [0]"

text \<open>
  \<^verbatim>\<open>strncpy(dest, src, n)\<close>: the first \<open>n\<close> bytes of \<open>dest\<close> become the characters of
  the C string \<open>src\<close>, at most \<open>n\<close> of them, followed by NUL bytes when the string is shorter
  than \<open>n\<close>; no NUL is stored when it is not.
\<close>

definition strncpy :: "u8 list \<Rightarrow> string \<Rightarrow> nat \<Rightarrow> u8 list" where
  "strncpy dest src n =
     (let copied = take n (map of_char (c_str src))
      in copied @ replicate (n - length copied) 0 @ drop n dest)"

subsection \<open>The sink and the diagnostic stream\<close>

text \<open>
  Modelled from the spec: the class \<^verbatim>\<open>OutputStream\<close> is declared in \<^verbatim>\<open>tools.h\<close>,
  which is not among the sources. The spec describes it as a sink that accepts raw byte
  chunks and repeated-byte fills, accessed in append-only, sequential order. The sink is the
  list of the bytes appended so far.
\<close>

type_synonym OutputStream = "u8 list"

text \<open>
  Modelled from the spec: the method \<^verbatim>\<open>OutputStream::writeChunk\<close> of \<^verbatim>\<open>tools.h\<close> is
  missing. The spec: \<^verbatim>\<open>writeChunk(bytes, length)\<close> (append exact bytes). The bytes are the
  first \<open>len\<close> bytes of the memory at the pointer.
\<close>

definition writeChunk :: "u8 list \<Rightarrow> nat \<Rightarrow> OutputStream \<Rightarrow> OutputStream" where
  "writeChunk bytes len out = out @ take len bytes"

text \<open>
  Modelled from the spec: the method \<^verbatim>\<open>OutputStream::writeRepeat\<close> of \<^verbatim>\<open>tools.h\<close> is
  missing. The spec: \<^verbatim>\<open>writeRepeat(byteValue, count)\<close> (append \<open>count\<close> copies of
  \<open>byteValue\<close>, used for padding).
\<close>

definition writeRepeat :: "u8 \<Rightarrow> nat \<Rightarrow> OutputStream \<Rightarrow> OutputStream" where
  "writeRepeat byteValue count out = out @ replicate count byteValue"

text \<open>
  \<^verbatim>\<open>fprintf(stderr, format, argument)\<close> is recorded as the call it is: the format string
  and the argument passed.
\<close>

type_synonym stderr = "(string \<times> u32) list"

definition fprintf :: "stderr \<Rightarrow> string \<Rightarrow> u32 \<Rightarrow> stderr" where
  "fprintf err format arg = err @ [(format, arg)]"

subsection \<open>\<^verbatim>\<open>pad\<close> (lines 76 to 80)\<close>

definition pad :: "u32 \<Rightarrow> u32" where
  "pad n = (n + (4 - 1)) AND NOT (4 - 1)"

subsection \<open>\<^verbatim>\<open>writeObject\<close> (lines 84 to 166)\<close>

text \<open>
  The locals of \<^verbatim>\<open>writeObject\<close>, each as a function of the parameters it depends on.
  The parameter \<^verbatim>\<open>size\<close> is written \<open>sz\<close>.
\<close>

definition sectionCount :: u32 where
  "sectionCount = 1"

definition symbolCount :: u32 where
  "symbolCount = 2"

definition sectionNumber :: u32 where
  "sectionNumber = 1"

definition startNameLength :: "string \<Rightarrow> u32" where
  "startNameLength startName = of_nat (strlen startName + 1)"

definition endNameLength :: "string \<Rightarrow> u32" where
  "endNameLength endName = of_nat (strlen endName + 1)"

definition startNameOffset :: u32 where
  "startNameOffset = 4"

definition endNameOffset :: "string \<Rightarrow> u32" where
  "endNameOffset startName = startNameOffset + startNameLength startName"

definition fileHeader :: "u32 \<Rightarrow> u32 \<Rightarrow> u32 \<Rightarrow> IMAGE_FILE_HEADER" where
  "fileHeader sz machine machineMask =
     \<lparr> Machine = ucast machine,
       NumberOfSections = ucast sectionCount,
       TimeDateStamp = 0,
       PointerToSymbolTable =
         of_nat (sizeof_IMAGE_FILE_HEADER + sizeof_IMAGE_SECTION_HEADER + unat (pad sz)),
       NumberOfSymbols = symbolCount,
       SizeOfOptionalHeader = 0,
       Characteristics =
         ucast (IMAGE_FILE_RELOCS_STRIPPED OR IMAGE_FILE_LINE_NUMS_STRIPPED OR machineMask) \<rparr>"

text \<open>
  The initialiser \<^verbatim>\<open>""\<close> zeroes the 8 bytes of \<open>Name\<close>; the call of
  \<^verbatim>\<open>strncpy\<close> at lines 129 and 130 then fills them.
\<close>

definition sectionHeader :: "u32 \<Rightarrow> string \<Rightarrow> u32 \<Rightarrow> IMAGE_SECTION_HEADER" where
  "sectionHeader sz sectionName sectionMask =
     (let sectionHeader =
        \<lparr> Name = replicate IMAGE_SIZEOF_SHORT_NAME 0,
          Misc = 0,
          VirtualAddress = 0,
          SizeOfRawData = pad sz,
          PointerToRawData = of_nat (sizeof_IMAGE_FILE_HEADER + sizeof_IMAGE_SECTION_HEADER),
          PointerToRelocations = 0,
          PointerToLinenumbers = 0,
          NumberOfRelocations = 0,
          NumberOfLinenumbers = 0,
          SectionCharacteristics = sectionMask \<rparr>
      in sectionHeader
           \<lparr> Name := strncpy (Name sectionHeader) sectionName IMAGE_SIZEOF_SHORT_NAME \<rparr>)"

definition startSymbol :: IMAGE_SYMBOL where
  "startSymbol =
     (let startSymbol =
        \<lparr> Short = 0, Long = 0,
          Value = 0,
          SectionNumber = ucast sectionNumber,
          Type = 0,
          StorageClass = 2,
          NumberOfAuxSymbols = 0 \<rparr>
      in startSymbol \<lparr> Long := startNameOffset \<rparr>)"

definition endSymbol :: "u32 \<Rightarrow> string \<Rightarrow> IMAGE_SYMBOL" where
  "endSymbol sz startName =
     (let endSymbol =
        \<lparr> Short = 0, Long = 0,
          Value = sz,
          SectionNumber = ucast sectionNumber,
          Type = 0,
          StorageClass = 2,
          NumberOfAuxSymbols = 0 \<rparr>
      in endSymbol \<lparr> Long := endNameOffset startName \<rparr>)"

definition symbolTableSize :: "string \<Rightarrow> string \<Rightarrow> u32" where
  "symbolTableSize startName endName = endNameOffset startName + endNameLength endName"

definition writeObject ::
  "u8 list \<Rightarrow> u32 \<Rightarrow> OutputStream \<Rightarrow> string \<Rightarrow> string \<Rightarrow> string \<Rightarrow> u32 \<Rightarrow> u32 \<Rightarrow> u32
   \<Rightarrow> OutputStream" where
  "writeObject data sz out startName endName sectionName machine machineMask sectionMask =
     (let out = writeChunk (bytes_IMAGE_FILE_HEADER (fileHeader sz machine machineMask))
                  sizeof_IMAGE_FILE_HEADER out;
          out = writeChunk (bytes_IMAGE_SECTION_HEADER (sectionHeader sz sectionName sectionMask))
                  sizeof_IMAGE_SECTION_HEADER out;
          out = writeChunk data (unat sz) out;
          out = writeRepeat 0 (unat (pad sz - sz)) out;
          out = writeChunk (bytes_IMAGE_SYMBOL startSymbol) sizeof_IMAGE_SYMBOL out;
          out = writeChunk (bytes_IMAGE_SYMBOL (endSymbol sz startName)) sizeof_IMAGE_SYMBOL out;
          out = writeChunk (le32 (symbolTableSize startName endName)) 4 out;
          out = writeChunk (c_array startName) (unat (startNameLength startName)) out;
          out = writeChunk (c_array endName) (unat (endNameLength endName)) out
      in out)"

subsection \<open>\<^verbatim>\<open>PEObjectWriter::write\<close> (lines 175 to 232)\<close>

text \<open>
  \<open>BytesPerWord\<close> is the template parameter of \<^verbatim>\<open>WindowsPlatform\<close>. The enumerators
  \<^verbatim>\<open>ObjectWriter::Writable\<close> and \<^verbatim>\<open>ObjectWriter::Executable\<close> are declared in
  \<^verbatim>\<open>tools.h\<close>, which is not among the sources: they are the parameters \<open>Writable\<close> and
  \<open>Executable\<close>. The result is the returned flag, the sink and the diagnostic stream.
  The method is named \<open>PEObjectWriter_write\<close>, since \<^verbatim>\<open>write\<close> is a keyword of
  Isabelle.
\<close>

definition PEObjectWriter_write ::
  "nat \<Rightarrow> u32 \<Rightarrow> u32 \<Rightarrow> u8 list \<Rightarrow> nat \<Rightarrow> OutputStream \<Rightarrow> string \<Rightarrow> string \<Rightarrow> u32 \<Rightarrow> u32
   \<Rightarrow> stderr \<Rightarrow> bool \<times> OutputStream \<times> stderr" where
  "PEObjectWriter_write BytesPerWord Writable Executable data sz out startName endName
     alignment accessFlags err =
     (let (machine, machineMask) =
            (if BytesPerWord = 8 then (IMAGE_FILE_MACHINE_AMD64, 0)
             else (IMAGE_FILE_MACHINE_I386, IMAGE_FILE_32BIT_MACHINE));
          alignmentClass =
            (if alignment = 0 \<or> alignment = 1 then Some IMAGE_SCN_ALIGN_1BYTES
             else if alignment = 2 then Some IMAGE_SCN_ALIGN_2BYTES
             else if alignment = 4 then Some IMAGE_SCN_ALIGN_4BYTES
             else if alignment = 8 then Some IMAGE_SCN_ALIGN_8BYTES
             else None)
      in case alignmentClass of
           None \<Rightarrow>
             (False, out, fprintf err ''unsupported alignment: %d\<newline>'' alignment)
         | Some sectionMask \<Rightarrow>
             (let sectionMask = sectionMask OR IMAGE_SCN_MEM_READ;
                  (sectionName, sectionMask) =
                    (if accessFlags AND Writable \<noteq> 0 then
                       if accessFlags AND Executable \<noteq> 0 then
                         (''.rwx'',
                          sectionMask OR (IMAGE_SCN_MEM_WRITE OR IMAGE_SCN_MEM_EXECUTE
                                          OR IMAGE_SCN_CNT_CODE))
                       else (''.data'', sectionMask OR IMAGE_SCN_MEM_WRITE)
                     else
                       (''.text'', sectionMask OR (IMAGE_SCN_MEM_EXECUTE OR IMAGE_SCN_CNT_CODE)))
              in (True,
                  writeObject data (of_nat sz) out startName endName sectionName
                    machine machineMask sectionMask,
                  err)))"

subsection \<open>Reading an emitted object back\<close>

text \<open>
  The claims speak of the fields of the emitted object. They are observed by reading the
  emitted bytes back at the offsets the packed structures fix: little-endian integers, and
  each structure field by field. A read past the end of the bytes gives 0.
\<close>

fun rd8 :: "u8 list \<Rightarrow> u8" where
  "rd8 (b0 # _) = b0"
| "rd8 _ = 0"

fun rd16 :: "u8 list \<Rightarrow> u16" where
  "rd16 (b0 # b1 # _) = ucast b0 OR push_bit 8 (ucast b1)"
| "rd16 _ = 0"

fun rd32 :: "u8 list \<Rightarrow> u32" where
  "rd32 (b0 # b1 # b2 # b3 # _) =
     ucast b0 OR push_bit 8 (ucast b1) OR push_bit 16 (ucast b2) OR push_bit 24 (ucast b3)"
| "rd32 _ = 0"

definition parse_IMAGE_FILE_HEADER :: "u8 list \<Rightarrow> IMAGE_FILE_HEADER" where
  "parse_IMAGE_FILE_HEADER bs =
     \<lparr> Machine = rd16 bs,
       NumberOfSections = rd16 (drop 2 bs),
       TimeDateStamp = rd32 (drop 4 bs),
       PointerToSymbolTable = rd32 (drop 8 bs),
       NumberOfSymbols = rd32 (drop 12 bs),
       SizeOfOptionalHeader = rd16 (drop 16 bs),
       Characteristics = rd16 (drop 18 bs) \<rparr>"

definition parse_IMAGE_SECTION_HEADER :: "u8 list \<Rightarrow> IMAGE_SECTION_HEADER" where
  "parse_IMAGE_SECTION_HEADER bs =
     \<lparr> Name = take 8 bs,
       Misc = rd32 (drop 8 bs),
       VirtualAddress = rd32 (drop 12 bs),
       SizeOfRawData = rd32 (drop 16 bs),
       PointerToRawData = rd32 (drop 20 bs),
       PointerToRelocations = rd32 (drop 24 bs),
       PointerToLinenumbers = rd32 (drop 28 bs),
       NumberOfRelocations = rd16 (drop 32 bs),
       NumberOfLinenumbers = rd16 (drop 34 bs),
       SectionCharacteristics = rd32 (drop 36 bs) \<rparr>"

definition parse_IMAGE_SYMBOL :: "u8 list \<Rightarrow> IMAGE_SYMBOL" where
  "parse_IMAGE_SYMBOL bs =
     \<lparr> Short = rd32 bs,
       Long = rd32 (drop 4 bs),
       Value = rd32 (drop 8 bs),
       SectionNumber = rd16 (drop 12 bs),
       Type = rd16 (drop 14 bs),
       StorageClass = rd8 (drop 16 bs),
       NumberOfAuxSymbols = rd8 (drop 17 bs) \<rparr>"

text \<open>
  What a call appended to the sink: the bytes of the sink after the call, without the
  bytes that were there before it.
\<close>

definition emitted :: "OutputStream \<Rightarrow> OutputStream \<Rightarrow> u8 list" where
  "emitted before after = drop (length before) after"

text \<open>
  The position of the symbol table in an object emitted for a blob of \<open>sz\<close> bytes: behind
  the two headers, the raw data and the padding.
\<close>

definition symbolTableAt :: "u32 \<Rightarrow> nat" where
  "symbolTableAt sz =
     sizeof_IMAGE_FILE_HEADER + sizeof_IMAGE_SECTION_HEADER + unat sz + unat (pad sz - sz)"

section \<open>Properties of the memory images\<close>

lemma length_le16 [simp]: "length (le16 w) = 2"
  by (simp add: le16_def)

lemma length_le32 [simp]: "length (le32 w) = 4"
  by (simp add: le32_def)

lemma length_bytes_IMAGE_FILE_HEADER [simp]:
  "length (bytes_IMAGE_FILE_HEADER h) = 20"
  by (simp add: bytes_IMAGE_FILE_HEADER_def)

lemma length_bytes_IMAGE_SECTION_HEADER:
  "length (Name h) = 8 \<Longrightarrow> length (bytes_IMAGE_SECTION_HEADER h) = 40"
  by (simp add: bytes_IMAGE_SECTION_HEADER_def)

lemma length_bytes_IMAGE_SYMBOL [simp]:
  "length (bytes_IMAGE_SYMBOL s) = 18"
  by (simp add: bytes_IMAGE_SYMBOL_def)

lemma rd16_le16 [simp]: "rd16 (le16 w @ bs) = w"
proof -
  have "ucast (ucast w :: u8) OR push_bit 8 (ucast (ucast (drop_bit 8 w) :: u8)) = w"
  proof (rule bit_word_eqI)
    fix n assume n: "n < LENGTH(16)"
    have a: "8 \<le> n \<Longrightarrow> 8 + (n - 8) = n" by arith
    have b: "n < 8 \<or> (8 \<le> n \<and> n - 8 < 8)"
      using n by auto
    show "bit (ucast (ucast w :: u8) OR push_bit 8 (ucast (ucast (drop_bit 8 w) :: u8)) :: u16) n
          = bit w n"
      using a b n by (auto simp add: bit_or_iff bit_push_bit_iff bit_ucast_iff bit_drop_bit_eq)
  qed
  then show ?thesis by (simp add: le16_def)
qed

lemma rd32_le32 [simp]: "rd32 (le32 w @ bs) = w"
proof -
  have "ucast (ucast w :: u8) OR push_bit 8 (ucast (ucast (drop_bit 8 w) :: u8))
      OR push_bit 16 (ucast (ucast (drop_bit 16 w) :: u8))
      OR push_bit 24 (ucast (ucast (drop_bit 24 w) :: u8)) = w"
  proof (rule bit_word_eqI)
    fix n assume n: "n < LENGTH(32)"
    have a: "8 \<le> n \<Longrightarrow> 8 + (n - 8) = n" "16 \<le> n \<Longrightarrow> 16 + (n - 16) = n"
      "24 \<le> n \<Longrightarrow> 24 + (n - 24) = n" by arith+
    have b: "n < 8 \<or> (8 \<le> n \<and> n - 8 < 8) \<or> (16 \<le> n \<and> n - 16 < 8) \<or> (24 \<le> n \<and> n - 24 < 8)"
      using n by auto
    show "bit (ucast (ucast w :: u8) OR push_bit 8 (ucast (ucast (drop_bit 8 w) :: u8))
      OR push_bit 16 (ucast (ucast (drop_bit 16 w) :: u8))
      OR push_bit 24 (ucast (ucast (drop_bit 24 w) :: u8)) :: u32) n = bit w n"
      using a b n by (auto simp add: bit_or_iff bit_push_bit_iff bit_ucast_iff bit_drop_bit_eq)
  qed
  then show ?thesis by (simp add: le32_def)
qed

lemma parse_bytes_IMAGE_FILE_HEADER:
  "parse_IMAGE_FILE_HEADER (bytes_IMAGE_FILE_HEADER h @ bs) = h"
  by (simp add: parse_IMAGE_FILE_HEADER_def bytes_IMAGE_FILE_HEADER_def)

lemma parse_bytes_IMAGE_SECTION_HEADER:
  "length (Name h) = 8 \<Longrightarrow> parse_IMAGE_SECTION_HEADER (bytes_IMAGE_SECTION_HEADER h @ bs) = h"
  by (simp add: parse_IMAGE_SECTION_HEADER_def bytes_IMAGE_SECTION_HEADER_def)

lemma parse_bytes_IMAGE_SYMBOL:
  "parse_IMAGE_SYMBOL (bytes_IMAGE_SYMBOL s @ bs) = s"
  by (simp add: parse_IMAGE_SYMBOL_def bytes_IMAGE_SYMBOL_def)

lemma length_strncpy: "n \<le> length dest \<Longrightarrow> length (strncpy dest src n) = length dest"
  by (simp add: strncpy_def Let_def)

lemma length_Name_sectionHeader: "length (Name (sectionHeader sz sectionName sectionMask)) = 8"
  by (simp add: sectionHeader_def Let_def length_strncpy IMAGE_SIZEOF_SHORT_NAME_def)

section \<open>Properties of \<^verbatim>\<open>pad\<close> and of C strings\<close>

lemma three_mask: "(3 :: u32) = mask 2"
  by (simp add: mask_eq_exp_minus_1)

lemma and_not_3: "(m :: u32) AND NOT 3 = m div 4 * 4"
proof -
  have "m AND NOT (mask 2) = push_bit 2 (drop_bit 2 m)"
  proof (rule bit_word_eqI)
    fix n assume "n < LENGTH(32)"
    have "\<not> n < 2 \<Longrightarrow> 2 + (n - 2) = n" by arith
    then show "bit (m AND NOT (mask 2)) n = bit (push_bit 2 (drop_bit 2 m)) n"
      by (auto simp add: bit_and_iff bit_not_iff bit_mask_iff bit_push_bit_iff bit_drop_bit_eq)
  qed
  then show ?thesis
    by (simp add: three_mask push_bit_eq_mult drop_bit_eq_div)
qed

lemma pad_div: "pad n = (n + 3) div 4 * 4"
proof -
  have "(4 :: u32) - 1 = 3" by simp
  then show ?thesis by (simp only: pad_def and_not_3)
qed

lemma unat_pad: "unat (pad n) = unat (n + 3) div 4 * 4"
proof -
  have "unat (n + 3) div 4 * 4 \<le> unat (n + 3)" by simp
  also have "\<dots> < 2 ^ 32" using unsigned_less [of "n + 3"] by simp
  finally have "unat ((n + 3) div 4) * unat (4 :: u32) < 2 ^ LENGTH(32)"
    by (simp add: unat_div)
  then have "unat ((n + 3) div 4 * 4) = unat ((n + 3) div 4) * unat (4 :: u32)"
    by (simp only: unat_mult_lem)
  then show ?thesis by (simp add: pad_div unat_div)
qed

lemma pad_minus: "pad n - n = 3 - (n + 3) mod 4"
proof -
  have "(n + 3) div 4 * 4 + (n + 3) mod 4 = n + 3"
    by (rule div_mult_mod_eq)
  then have "(n + 3) div 4 * 4 = n + 3 - (n + 3) mod 4"
    by (simp add: algebra_simps)
  then show ?thesis by (simp add: pad_div)
qed

lemma unat_pad_minus: "unat (pad n - n) = 3 - unat (n + 3) mod 4"
proof -
  have "unat ((n + 3) mod 4) = unat (n + 3) mod 4"
    by (simp add: unat_mod)
  moreover have "unat (n + 3) mod 4 \<le> 3" by arith
  ultimately have "(n + 3) mod 4 \<le> 3"
    by (simp add: word_le_nat_alt)
  then have "unat (3 - (n + 3) mod 4) = unat (3 :: u32) - unat ((n + 3) mod 4)"
    by (rule unat_sub)
  then show ?thesis by (simp add: pad_minus unat_mod)
qed

lemma of_char_NUL: "(of_char NUL :: u8) = 0"
  by (simp add: NUL_def)

lemma of_char_eq_0: "(of_char c :: u8) = 0 \<longleftrightarrow> c = NUL"
proof (cases c)
  case (Char b0 b1 b2 b3 b4 b5 b6 b7)
  then show ?thesis
    by (cases b0; cases b1; cases b2; cases b3; cases b4; cases b5; cases b6; cases b7)
       (simp_all add: NUL_def)
qed

lemma take_c_array: "take (strlen s + 1) (c_array s) = map of_char (c_str s) @ [0]"
proof (cases "dropWhile (\<lambda>c. c \<noteq> NUL) s")
  case Nil
  then have "c_str s = s"
    unfolding c_str_def by (metis append_Nil2 takeWhile_dropWhile_id)
  then show ?thesis by (simp add: strlen_def c_array_def)
next
  case (Cons x xs)
  then have x: "x = NUL" using hd_dropWhile [of "\<lambda>c. c \<noteq> NUL" s] by simp
  have s: "s = c_str s @ NUL # xs"
    unfolding c_str_def using Cons x takeWhile_dropWhile_id [of "\<lambda>c. c \<noteq> NUL" s] by simp
  have "take (strlen s + 1) (c_array (c_str s @ NUL # xs)) = map of_char (c_str s) @ [0]"
    by (simp add: strlen_def c_array_def of_char_NUL)
  with s show ?thesis by simp
qed

section \<open>The layout of the emitted object\<close>

lemma length_bytes_sectionHeader [simp]:
  "length (bytes_IMAGE_SECTION_HEADER (sectionHeader sz sectionName sectionMask)) = 40"
  by (simp add: length_bytes_IMAGE_SECTION_HEADER length_Name_sectionHeader)

lemma emitted_append [simp]: "emitted out (out @ bs) = bs"
  by (simp add: emitted_def)

lemma writeObject_layout:
  "writeObject data sz out startName endName sectionName machine machineMask sectionMask =
     out @ (bytes_IMAGE_FILE_HEADER (fileHeader sz machine machineMask)
     @ bytes_IMAGE_SECTION_HEADER (sectionHeader sz sectionName sectionMask)
     @ take (unat sz) data
     @ replicate (unat (pad sz - sz)) 0
     @ bytes_IMAGE_SYMBOL startSymbol
     @ bytes_IMAGE_SYMBOL (endSymbol sz startName)
     @ le32 (symbolTableSize startName endName)
     @ take (unat (startNameLength startName)) (c_array startName)
     @ take (unat (endNameLength endName)) (c_array endName))"
  by (simp add: writeObject_def writeChunk_def writeRepeat_def
      sizeof_IMAGE_FILE_HEADER_def sizeof_IMAGE_SECTION_HEADER_def sizeof_IMAGE_SYMBOL_def)

lemma emitted_fileHeader:
  "parse_IMAGE_FILE_HEADER
     (emitted out (writeObject data sz out startName endName sectionName machine machineMask sectionMask))
   = fileHeader sz machine machineMask"
  by (simp only: writeObject_layout emitted_append parse_bytes_IMAGE_FILE_HEADER)

lemma emitted_sectionHeader:
  "parse_IMAGE_SECTION_HEADER
     (drop 20 (emitted out (writeObject data sz out startName endName sectionName machine machineMask sectionMask)))
   = sectionHeader sz sectionName sectionMask"
  by (simp add: writeObject_layout parse_bytes_IMAGE_SECTION_HEADER length_Name_sectionHeader)

lemma drop_symbolTableAt:
  assumes "unat sz \<le> length data"
  shows "drop (symbolTableAt sz)
     (emitted out (writeObject data sz out startName endName sectionName machine machineMask sectionMask))
   = bytes_IMAGE_SYMBOL startSymbol
     @ bytes_IMAGE_SYMBOL (endSymbol sz startName)
     @ le32 (symbolTableSize startName endName)
     @ take (unat (startNameLength startName)) (c_array startName)
     @ take (unat (endNameLength endName)) (c_array endName)"
  using assms
  by (simp add: writeObject_layout symbolTableAt_def
      sizeof_IMAGE_FILE_HEADER_def sizeof_IMAGE_SECTION_HEADER_def)

lemma emitted_startSymbol:
  assumes "unat sz \<le> length data"
  shows "parse_IMAGE_SYMBOL (drop (symbolTableAt sz)
     (emitted out (writeObject data sz out startName endName sectionName machine machineMask sectionMask)))
   = startSymbol"
  by (simp only: drop_symbolTableAt [OF assms] parse_bytes_IMAGE_SYMBOL)

lemma emitted_endSymbol:
  assumes "unat sz \<le> length data"
  shows "parse_IMAGE_SYMBOL (drop (symbolTableAt sz + 18)
     (emitted out (writeObject data sz out startName endName sectionName machine machineMask sectionMask)))
   = endSymbol sz startName"
proof -
  have "drop (symbolTableAt sz + 18)
     (emitted out (writeObject data sz out startName endName sectionName machine machineMask sectionMask))
     = drop 18 (drop (symbolTableAt sz)
     (emitted out (writeObject data sz out startName endName sectionName machine machineMask sectionMask)))"
    by (simp add: add.commute)
  then show ?thesis
    by (simp add: drop_symbolTableAt [OF assms] parse_bytes_IMAGE_SYMBOL)
qed

lemma emitted_symbolTableSize:
  assumes "unat sz \<le> length data"
  shows "rd32 (drop (symbolTableAt sz + 36)
     (emitted out (writeObject data sz out startName endName sectionName machine machineMask sectionMask)))
   = symbolTableSize startName endName"
proof -
  have "drop (symbolTableAt sz + 36)
     (emitted out (writeObject data sz out startName endName sectionName machine machineMask sectionMask))
     = drop 36 (drop (symbolTableAt sz)
     (emitted out (writeObject data sz out startName endName sectionName machine machineMask sectionMask)))"
    by (simp add: add.commute)
  then show ?thesis
    by (simp add: drop_symbolTableAt [OF assms])
qed

lemma unat_of_nat_u32: "k < 2 ^ 32 \<Longrightarrow> unat (of_nat k :: u32) = k"
  by (simp add: unat_of_nat)

lemma unat_nameLength:
  "strlen s + 1 < 2 ^ 32 \<Longrightarrow> unat (of_nat (strlen s + 1) :: u32) = strlen s + 1"
  by (rule unat_of_nat_u32)

lemma take_startName:
  "strlen s + 1 < 2 ^ 32 \<Longrightarrow>
   take (unat (startNameLength s)) (c_array s) = map of_char (c_str s) @ [0]"
  unfolding startNameLength_def by (simp only: unat_nameLength take_c_array)

lemma take_endName:
  "strlen s + 1 < 2 ^ 32 \<Longrightarrow>
   take (unat (endNameLength s)) (c_array s) = map of_char (c_str s) @ [0]"
  unfolding endNameLength_def by (simp only: unat_nameLength take_c_array)

lemma unat_of_nat_u32_le: "unat (of_nat k :: u32) \<le> k"
  by (simp add: unat_of_nat)

lemma unat_nameLength_le: "unat (of_nat (strlen s + 1) :: u32) \<le> length (c_array s)"
proof -
  have "unat (of_nat (strlen s + 1) :: u32) \<le> strlen s + 1"
    by (rule unat_of_nat_u32_le)
  moreover have "strlen s \<le> length s"
    unfolding strlen_def c_str_def by (rule length_takeWhile_le)
  ultimately show ?thesis by (simp add: c_array_def)
qed

text \<open>
  The length of the emitted object: everything in front of the symbol table, the two symbol
  records, the size field and the bytes written of the two names.
\<close>

lemma length_emitted_writeObject:
  assumes "unat sz \<le> length data"
  shows "length (emitted out (writeObject data sz out startName endName sectionName
                   machine machineMask sectionMask))
         = symbolTableAt sz + 18 + 18 + 4
           + unat (startNameLength startName) + unat (endNameLength endName)"
proof -
  have s: "min (length (c_array startName)) (unat (startNameLength startName))
           = unat (startNameLength startName)"
    unfolding startNameLength_def using unat_nameLength_le [of startName] by simp
  have e: "min (length (c_array endName)) (unat (endNameLength endName))
           = unat (endNameLength endName)"
    unfolding endNameLength_def using unat_nameLength_le [of endName] by simp
  show ?thesis
    using assms
    by (simp add: writeObject_layout symbolTableAt_def s e
        sizeof_IMAGE_FILE_HEADER_def sizeof_IMAGE_SECTION_HEADER_def)
qed

lemma unat_plus_3_mod_4: "unat (n + 3 :: u32) mod 4 = (unat n + 3) mod 4"
proof -
  have "unat (n + 3) = (unat n + 3) mod 2 ^ 32"
    by (simp add: unat_word_ariths)
  moreover have "(unat n + 3) mod 2 ^ 32 mod 4 = (unat n + 3) mod 4"
    by (rule mod_mod_cancel) simp
  ultimately show ?thesis by simp
qed

lemma padding_aligned: "(unat n + unat (pad n - n)) mod 4 = 0"
  unfolding unat_pad_minus unat_plus_3_mod_4 by presburger

lemma unat_pad_no_wrap:
  assumes "unat n + 3 < 2 ^ 32"
  shows "unat (pad n) = (unat n + 3) div 4 * 4"
proof -
  have "unat (n + 3) = unat n + 3"
    using assms by (simp add: unat_word_ariths)
  then show ?thesis by (simp add: unat_pad)
qed

lemma pad_minus_cases: "pad n - n \<in> {0, 1, 2, 3}"
proof -
  have "unat (pad n - n) < 4"
    unfolding unat_pad_minus by arith
  then have "unat (pad n - n) \<in> {0, 1, 2, 3}" by auto
  then have "unat (pad n - n) = unat (0 :: u32) \<or> unat (pad n - n) = unat (1 :: u32)
      \<or> unat (pad n - n) = unat (2 :: u32) \<or> unat (pad n - n) = unat (3 :: u32)"
    by auto
  then show ?thesis
    by (simp only: word_unat_eq_iff [symmetric] insert_iff empty_iff) blast
qed

text \<open>
  As long as the offset fits 32 bits, the symbol table is where the file header says.
\<close>

lemma symbolTableAt_header:
  assumes "unat sz + 3 + 60 < 2 ^ 32"
  shows "unat (PointerToSymbolTable (fileHeader sz machine machineMask)) = symbolTableAt sz"
proof -
  have a: "unat (pad sz) = unat sz + unat (pad sz - sz)"
    using assms unfolding unat_pad_minus unat_plus_3_mod_4
    by (simp add: unat_pad_no_wrap) presburger
  have "unat (pad sz) \<le> unat sz + 3"
    using assms by (simp add: unat_pad_no_wrap)
  then have "60 + unat (pad sz) < 2 ^ 32"
    using assms by simp
  then have "unat (of_nat (60 + unat (pad sz)) :: u32) = 60 + unat (pad sz)"
    by (rule unat_of_nat_u32)
  then show ?thesis
    by (simp add: fileHeader_def symbolTableAt_def a
        sizeof_IMAGE_FILE_HEADER_def sizeof_IMAGE_SECTION_HEADER_def)
qed

lemma Name_sectionHeader:
  "Name (sectionHeader sz sectionName sectionMask)
   = take 8 (map of_char (c_str sectionName))
     @ replicate (8 - length (c_str sectionName)) 0"
  by (simp add: sectionHeader_def strncpy_def Let_def IMAGE_SIZEOF_SHORT_NAME_def min_def)

lemma c_str_nonzero: "(0 :: u8) \<notin> set (map of_char (c_str s))"
proof
  assume "(0 :: u8) \<in> set (map of_char (c_str s))"
  then obtain c where c: "c \<in> set (c_str s)" "(of_char c :: u8) = 0" by auto
  from c(1) have "c \<noteq> NUL"
    unfolding c_str_def by (rule set_takeWhileD [THEN conjunct2])
  with c(2) show False by (simp add: of_char_eq_0)
qed

section \<open>The two outcomes of \<^verbatim>\<open>write\<close>\<close>

lemma write_unsupported:
  assumes "alignment \<notin> {0, 1, 2, 4, 8}"
  shows "PEObjectWriter_write BytesPerWord Writable Executable data n out startName endName
           alignment accessFlags err
         = (False, out, err @ [(''unsupported alignment: %d\<newline>'', alignment)])"
  using assms by (simp add: PEObjectWriter_write_def fprintf_def split: prod.splits)

text \<open>
  On success \<^verbatim>\<open>write\<close> calls \<^verbatim>\<open>writeObject\<close> once, with these values of its locals
  \<^verbatim>\<open>sectionName\<close>, \<^verbatim>\<open>machine\<close>, \<^verbatim>\<open>machineMask\<close> and \<^verbatim>\<open>sectionMask\<close>.
\<close>

lemma write_supported:
  assumes "alignment \<in> {0, 1, 2, 4, 8}"
  shows "PEObjectWriter_write BytesPerWord Writable Executable data n out startName endName
           alignment accessFlags err
     = (True,
        writeObject data (of_nat n) out startName endName
          (if accessFlags AND Writable \<noteq> 0
           then if accessFlags AND Executable \<noteq> 0 then ''.rwx'' else ''.data''
           else ''.text'')
          (if BytesPerWord = 8 then IMAGE_FILE_MACHINE_AMD64 else IMAGE_FILE_MACHINE_I386)
          (if BytesPerWord = 8 then 0 else IMAGE_FILE_32BIT_MACHINE)
          ((if alignment = 0 \<or> alignment = 1 then IMAGE_SCN_ALIGN_1BYTES
            else if alignment = 2 then IMAGE_SCN_ALIGN_2BYTES
            else if alignment = 4 then IMAGE_SCN_ALIGN_4BYTES
            else IMAGE_SCN_ALIGN_8BYTES)
           OR IMAGE_SCN_MEM_READ
           OR (if accessFlags AND Writable \<noteq> 0
               then if accessFlags AND Executable \<noteq> 0
                    then IMAGE_SCN_MEM_WRITE OR IMAGE_SCN_MEM_EXECUTE OR IMAGE_SCN_CNT_CODE
                    else IMAGE_SCN_MEM_WRITE
               else IMAGE_SCN_MEM_EXECUTE OR IMAGE_SCN_CNT_CODE)),
        err)"
  using assms by (auto simp add: PEObjectWriter_write_def Let_def or.assoc split: prod.splits)

lemma nth_differs_only:
  assumes "length a = 2" "length a' = 2" "length c = 2" "length c' = 2" "length m = 16"
    and "i \<notin> {0, 1, 18, 19}"
  shows "(a @ m @ c @ r) ! i = (a' @ m @ c' @ r) ! i"
  using assms by (auto simp add: nth_append)

lemma nth_fileHeader_word_size:
  assumes "i \<notin> {0, 1, 18, 19}"
  shows "(bytes_IMAGE_FILE_HEADER (fileHeader sz machine machineMask) @ r) ! i
       = (bytes_IMAGE_FILE_HEADER (fileHeader sz machine' machineMask') @ r) ! i"
proof -
  let ?m = "le16 (ucast sectionCount) @ le32 0
     @ le32 (of_nat (sizeof_IMAGE_FILE_HEADER + sizeof_IMAGE_SECTION_HEADER + unat (pad sz)))
     @ le32 symbolCount @ le16 0"
  have b: "bytes_IMAGE_FILE_HEADER (fileHeader sz k l) @ r
      = le16 (ucast k) @ ?m
        @ le16 (ucast (IMAGE_FILE_RELOCS_STRIPPED OR IMAGE_FILE_LINE_NUMS_STRIPPED OR l)) @ r"
    for k l
    by (simp add: bytes_IMAGE_FILE_HEADER_def fileHeader_def)
  show ?thesis
    unfolding b using assms by (intro nth_differs_only) simp_all
qed

section \<open>A worked example\<close>

text \<open>
  The example of the spec, byte for byte: five bytes \<open>0xAA\<close>, the names
  \<^verbatim>\<open>_binary_start\<close> and \<^verbatim>\<open>_binary_end\<close>, alignment 4, access flags with
  Executable alone, word size 8 (with 2 and 4 for the enumerators Writable and Executable).
  The 134 bytes are the file header (machine \<open>0x8664\<close>, symbol table at 68), the section
  header (\<^verbatim>\<open>.text\<close>, 8 bytes of raw data at 60), the data and three zero bytes, the two
  symbol records (values 0 and 5), the string-table size 30 and the two names.
\<close>

lemma example_object:
  "PEObjectWriter_write 8 2 4 (replicate 5 0xAA) 5 [] ''_binary_start'' ''_binary_end'' 4 4 []
   = (True,
      [
        0x64, 0x86, 0x01, 0x00, 0x00, 0x00, 0x00, 0x00, 0x44, 0x00, 0x00, 0x00,
        0x02, 0x00, 0x00, 0x00, 0x00, 0x00, 0x05, 0x00, 0x2E, 0x74, 0x65, 0x78,
        0x74, 0x00, 0x00, 0x00, 0x00, 0x00, 0x00, 0x00, 0x00, 0x00, 0x00, 0x00,
        0x08, 0x00, 0x00, 0x00, 0x3C, 0x00, 0x00, 0x00, 0x00, 0x00, 0x00, 0x00,
        0x00, 0x00, 0x00, 0x00, 0x00, 0x00, 0x00, 0x00, 0x20, 0x00, 0x30, 0x60,
        0xAA, 0xAA, 0xAA, 0xAA, 0xAA, 0x00, 0x00, 0x00, 0x00, 0x00, 0x00, 0x00,
        0x04, 0x00, 0x00, 0x00, 0x00, 0x00, 0x00, 0x00, 0x01, 0x00, 0x00, 0x00,
        0x02, 0x00, 0x00, 0x00, 0x00, 0x00, 0x12, 0x00, 0x00, 0x00, 0x05, 0x00,
        0x00, 0x00, 0x01, 0x00, 0x00, 0x00, 0x02, 0x00, 0x1E, 0x00, 0x00, 0x00,
        0x5F, 0x62, 0x69, 0x6E, 0x61, 0x72, 0x79, 0x5F, 0x73, 0x74, 0x61, 0x72,
        0x74, 0x00, 0x5F, 0x62, 0x69, 0x6E, 0x61, 0x72, 0x79, 0x5F, 0x65, 0x6E,
        0x64, 0x00
      ],
      [])"
proof -
  have r: "replicate 5 (0xAA :: u8) = [0xAA, 0xAA, 0xAA, 0xAA, 0xAA]"
    "replicate 3 (0 :: u8) = [0, 0, 0]"
    by (simp_all add: numeral_eq_Suc)
  have p: "pad 5 - 5 = 3" "pad 5 = 8"
    by (simp_all add: pad_def)
  show ?thesis
    by (simp add: r p PEObjectWriter_write_def writeObject_def writeChunk_def writeRepeat_def
        fileHeader_def sectionHeader_def startSymbol_def endSymbol_def symbolTableSize_def
        endNameOffset_def startNameOffset_def startNameLength_def endNameLength_def
        sectionCount_def symbolCount_def sectionNumber_def strncpy_def c_array_def c_str_def
        strlen_def NUL_def le16_def le32_def
        bytes_IMAGE_FILE_HEADER_def bytes_IMAGE_SECTION_HEADER_def bytes_IMAGE_SYMBOL_def
        sizeof_IMAGE_FILE_HEADER_def sizeof_IMAGE_SECTION_HEADER_def sizeof_IMAGE_SYMBOL_def
        IMAGE_SIZEOF_SHORT_NAME_def IMAGE_FILE_RELOCS_STRIPPED_def
        IMAGE_FILE_LINE_NUMS_STRIPPED_def IMAGE_FILE_MACHINE_AMD64_def
        IMAGE_SCN_ALIGN_4BYTES_def IMAGE_SCN_MEM_READ_def IMAGE_SCN_MEM_EXECUTE_def
        IMAGE_SCN_CNT_CODE_def drop_bit_eq_div)
qed

section \<open>The claims\<close>

subsection \<open>C1: the byte ranges written by \<^verbatim>\<open>writeObject\<close>\<close>

text \<open>
  C1. A call of \<^verbatim>\<open>writeObject\<close> appends to the sink exactly these ranges, in this order
  and nothing else: the 20 bytes of the file header, the 40 bytes of the section header, the
  \<open>n\<close> raw data bytes, zero bytes up to a 4-byte boundary (fewer than 4 of them), the 18
  bytes of the start symbol, the 18 bytes of the end symbol, the 4 bytes of the string-table
  size, the start name with its NUL and the end name with its NUL. What the sink held before
  the call stays in front.

  The hypotheses are the conditions under which the C call reads what the claim names: the
  buffer at \<^verbatim>\<open>data\<close> holds at least \<open>n\<close> bytes, and the length of each name with its
  NUL fits the \<^verbatim>\<open>unsigned\<close> variable that \<^verbatim>\<open>writeObject\<close> keeps it in (the name is
  shorter than 4 GiB).
\<close>

theorem writeObject_byte_ranges:
  assumes "unat sz \<le> length data"
    and "strlen startName + 1 < 2 ^ 32"
    and "strlen endName + 1 < 2 ^ 32"
  shows
    "writeObject data sz out startName endName sectionName machine machineMask sectionMask =
       out
       @ bytes_IMAGE_FILE_HEADER (fileHeader sz machine machineMask)
       @ bytes_IMAGE_SECTION_HEADER (sectionHeader sz sectionName sectionMask)
       @ take (unat sz) data
       @ replicate (unat (pad sz - sz)) 0
       @ bytes_IMAGE_SYMBOL startSymbol
       @ bytes_IMAGE_SYMBOL (endSymbol sz startName)
       @ le32 (symbolTableSize startName endName)
       @ (map of_char (c_str startName) @ [0])
       @ (map of_char (c_str endName) @ [0])
     \<and> length (bytes_IMAGE_FILE_HEADER (fileHeader sz machine machineMask)) = 20
     \<and> length (bytes_IMAGE_SECTION_HEADER (sectionHeader sz sectionName sectionMask)) = 40
     \<and> length (take (unat sz) data) = unat sz
     \<and> unat (pad sz - sz) < 4
     \<and> (unat sz + unat (pad sz - sz)) mod 4 = 0
     \<and> length (bytes_IMAGE_SYMBOL startSymbol) = 18
     \<and> length (bytes_IMAGE_SYMBOL (endSymbol sz startName)) = 18
     \<and> length (le32 (symbolTableSize startName endName)) = 4
     \<and> length (map of_char (c_str startName) @ [0 :: u8]) = strlen startName + 1
     \<and> length (map of_char (c_str endName) @ [0 :: u8]) = strlen endName + 1"
proof -
  have "unat (pad sz - sz) < 4"
    unfolding unat_pad_minus by arith
  moreover have "length (take (unat sz) data) = unat sz"
    using assms(1) by simp
  ultimately show ?thesis
    using assms(2,3)
    by (simp add: writeObject_layout take_startName take_endName padding_aligned strlen_def)
qed

text \<open>
  The example of the spec: five bytes \<open>0xAA\<close>, the names \<^verbatim>\<open>_binary_start\<close> and
  \<^verbatim>\<open>_binary_end\<close>, three bytes of padding.
\<close>

theorem writeObject_byte_ranges_witness:
  "unat (5 :: u32) \<le> length (replicate 5 (0xAA :: u8))
   \<and> strlen ''_binary_start'' + 1 < 2 ^ 32
   \<and> strlen ''_binary_end'' + 1 < 2 ^ 32
   \<and> writeObject (replicate 5 0xAA) 5 [] ''_binary_start'' ''_binary_end'' ''.text''
         0x8664 0 0x60300020 =
       bytes_IMAGE_FILE_HEADER (fileHeader 5 0x8664 0)
       @ bytes_IMAGE_SECTION_HEADER (sectionHeader 5 ''.text'' 0x60300020)
       @ [0xAA, 0xAA, 0xAA, 0xAA, 0xAA]
       @ [0, 0, 0]
       @ bytes_IMAGE_SYMBOL startSymbol
       @ bytes_IMAGE_SYMBOL (endSymbol 5 ''_binary_start'')
       @ le32 (symbolTableSize ''_binary_start'' ''_binary_end'')
       @ (map of_char ''_binary_start'' @ [0])
       @ (map of_char ''_binary_end'' @ [0])"
proof -
  have h1: "unat (5 :: u32) \<le> length (replicate 5 (0xAA :: u8))" by simp
  have h2: "strlen ''_binary_start'' + 1 < 2 ^ 32"
    by (simp add: strlen_def c_str_def NUL_def)
  have h3: "strlen ''_binary_end'' + 1 < 2 ^ 32"
    by (simp add: strlen_def c_str_def NUL_def)
  have p: "pad 5 - 5 = 3" by (simp add: pad_def)
  have r: "replicate 5 (0xAA :: u8) = [0xAA, 0xAA, 0xAA, 0xAA, 0xAA]"
    by (simp add: numeral_eq_Suc)
  have r3: "replicate 3 (0 :: u8) = [0, 0, 0]"
    by (simp add: numeral_eq_Suc)
  from writeObject_byte_ranges [OF h1 h2 h3, of "[]" "''.text''" "0x8664" 0 "0x60300020"]
  have "writeObject (replicate 5 0xAA) 5 [] ''_binary_start'' ''_binary_end'' ''.text''
         0x8664 0 0x60300020 =
       bytes_IMAGE_FILE_HEADER (fileHeader 5 0x8664 0)
       @ bytes_IMAGE_SECTION_HEADER (sectionHeader 5 ''.text'' 0x60300020)
       @ [0xAA, 0xAA, 0xAA, 0xAA, 0xAA]
       @ [0, 0, 0]
       @ bytes_IMAGE_SYMBOL startSymbol
       @ bytes_IMAGE_SYMBOL (endSymbol 5 ''_binary_start'')
       @ le32 (symbolTableSize ''_binary_start'' ''_binary_end'')
       @ (map of_char ''_binary_start'' @ [0])
       @ (map of_char ''_binary_end'' @ [0])"
    by (simp add: p r r3 c_str_def NUL_def)
  with h1 h2 h3 show ?thesis by blast
qed

subsection \<open>C2: the file header\<close>

text \<open>
  C2. For every blob size \<open>n\<close> and every word size, the file header of the object that a
  successful \<^verbatim>\<open>write\<close> emits has section count 1, symbol count 2 and symbol-table
  offset \<open>20 + 40 + pad n\<close>; its machine field is AMD64 and the 32-bit-machine flag of its
  characteristics is clear when the word size is 8, and its machine field is I386 and that
  flag is set when the word size is 4.

  The offset is a 32-bit field and the equation is one of 32-bit arithmetic; the fourth
  conjunct reads it as a natural number, for the sizes whose offset fits the field. The
  hypothesis says that the call succeeds.
\<close>

theorem write_file_header:
  assumes "alignment \<in> {0, 1, 2, 4, 8}"
  shows
    "let h = parse_IMAGE_FILE_HEADER
               (emitted out (fst (snd (PEObjectWriter_write BytesPerWord Writable Executable
                  data n out startName endName alignment accessFlags err))))
     in NumberOfSections h = 1
      \<and> NumberOfSymbols h = 2
      \<and> PointerToSymbolTable h = 20 + 40 + pad (of_nat n)
      \<and> (n + 3 + 60 < 2 ^ 32 \<longrightarrow> unat (PointerToSymbolTable h) = 20 + 40 + (n + 3) div 4 * 4)
      \<and> (BytesPerWord = 8 \<longrightarrow>
           Machine h = ucast IMAGE_FILE_MACHINE_AMD64
           \<and> Characteristics h AND ucast IMAGE_FILE_32BIT_MACHINE = 0)
      \<and> (BytesPerWord = 4 \<longrightarrow>
           Machine h = ucast IMAGE_FILE_MACHINE_I386
           \<and> Characteristics h AND ucast IMAGE_FILE_32BIT_MACHINE
               = ucast IMAGE_FILE_32BIT_MACHINE)"
proof -
  have p: "PointerToSymbolTable (fileHeader sz machine machineMask) = 20 + 40 + pad sz"
    for sz machine machineMask
    by (simp add: fileHeader_def sizeof_IMAGE_FILE_HEADER_def sizeof_IMAGE_SECTION_HEADER_def)
  have u: "unat (20 + 40 + pad (of_nat n :: u32)) = 20 + 40 + (n + 3) div 4 * 4"
    if "n + 3 + 60 < 2 ^ 32"
  proof -
    have n: "unat (of_nat n :: u32) = n"
      using that by (simp add: unat_of_nat_u32)
    then have "unat (pad (of_nat n)) = (n + 3) div 4 * 4"
      using that unat_pad_no_wrap [of "of_nat n"] by simp
    moreover have "unat (60 :: u32) + (n + 3) div 4 * 4 < 2 ^ LENGTH(32)"
      using that by simp
    ultimately have "unat (60 + pad (of_nat n)) = unat (60 :: u32) + (n + 3) div 4 * 4"
      using unat_add_lem [of "60 :: u32" "pad (of_nat n)"] by simp
    then show ?thesis by simp
  qed
  show ?thesis
    unfolding write_supported [OF assms] Let_def fst_conv snd_conv emitted_fileHeader p
    using u
    by (simp add: fileHeader_def sectionCount_def symbolCount_def
        IMAGE_FILE_MACHINE_AMD64_def IMAGE_FILE_MACHINE_I386_def IMAGE_FILE_32BIT_MACHINE_def
        IMAGE_FILE_RELOCS_STRIPPED_def IMAGE_FILE_LINE_NUMS_STRIPPED_def)
qed

theorem write_file_header_witness:
  "(4 :: u32) \<in> {0, 1, 2, 4, 8}
   \<and> (5 :: nat) + 3 + 60 < 2 ^ 32
   \<and> (let h = parse_IMAGE_FILE_HEADER
               (emitted [] (fst (snd (PEObjectWriter_write 8 2 4 (replicate 5 0xAA) 5 []
                  ''_binary_start'' ''_binary_end'' 4 4 []))))
      in NumberOfSections h = 1
       \<and> NumberOfSymbols h = 2
       \<and> PointerToSymbolTable h = 68
       \<and> unat (PointerToSymbolTable h) = 68
       \<and> Machine h = 0x8664
       \<and> Characteristics h AND 0x100 = 0)"
proof -
  have h: "(4 :: u32) \<in> {0, 1, 2, 4, 8}" by simp
  have p: "pad 5 = 8" by (simp add: pad_def)
  show ?thesis
    using write_file_header [OF h, where BytesPerWord = 8 and n = 5 and out = "[]"
        and Writable = 2 and Executable = 4 and data = "replicate 5 0xAA"
        and startName = "''_binary_start''" and endName = "''_binary_end''"
        and accessFlags = 4 and err = "[]"]
    unfolding Let_def
    by (simp add: p IMAGE_FILE_MACHINE_AMD64_def IMAGE_FILE_32BIT_MACHINE_def)
qed

subsection \<open>C3: the two symbol records\<close>

text \<open>
  C3. In the object that \<^verbatim>\<open>writeObject\<close> emits for a blob of \<open>n\<close> bytes, the start
  symbol has value 0 and the end symbol has value \<open>n\<close> (so both are 0 when \<open>n = 0\<close>); both
  records have section number 1, storage class 2 (the class of an external symbol) and no
  auxiliary symbols. The records are read at the position of the symbol table and 18 bytes
  behind it. The hypothesis: the buffer at \<^verbatim>\<open>data\<close> holds at least \<open>n\<close> bytes.
\<close>

theorem symbol_values:
  assumes "unat sz \<le> length data"
  shows
    "let obj = emitted out (writeObject data sz out startName endName sectionName
                 machine machineMask sectionMask);
         startSym = parse_IMAGE_SYMBOL (drop (symbolTableAt sz) obj);
         endSym = parse_IMAGE_SYMBOL (drop (symbolTableAt sz + 18) obj)
     in Value startSym = 0 \<and> Value endSym = sz
      \<and> SectionNumber startSym = 1 \<and> SectionNumber endSym = 1
      \<and> StorageClass startSym = 2 \<and> StorageClass endSym = 2
      \<and> NumberOfAuxSymbols startSym = 0 \<and> NumberOfAuxSymbols endSym = 0"
  unfolding Let_def emitted_startSymbol [OF assms] emitted_endSymbol [OF assms]
  by (simp add: startSymbol_def endSymbol_def sectionNumber_def)

text \<open>A blob of five bytes: the start symbol has value 0, the end symbol has value 5.\<close>

theorem symbol_values_witness:
  "unat (5 :: u32) \<le> length (replicate 5 (0xAA :: u8))
   \<and> (let obj = emitted [] (writeObject (replicate 5 0xAA) 5 [] ''_binary_start''
                   ''_binary_end'' ''.text'' 0x8664 0 0x60300020);
          startSym = parse_IMAGE_SYMBOL (drop 68 obj);
          endSym = parse_IMAGE_SYMBOL (drop 86 obj)
      in Value startSym = 0 \<and> Value endSym = 5
       \<and> SectionNumber startSym = 1 \<and> SectionNumber endSym = 1
       \<and> StorageClass startSym = 2 \<and> StorageClass endSym = 2
       \<and> NumberOfAuxSymbols startSym = 0 \<and> NumberOfAuxSymbols endSym = 0)"
proof -
  have h: "unat (5 :: u32) \<le> length (replicate 5 (0xAA :: u8))" by simp
  have s: "symbolTableAt 5 = 68"
    by (simp add: symbolTableAt_def pad_def sizeof_IMAGE_FILE_HEADER_def
        sizeof_IMAGE_SECTION_HEADER_def)
  show ?thesis
    using symbol_values [OF h, where out = "[]" and startName = "''_binary_start''"
        and endName = "''_binary_end''" and sectionName = "''.text''" and machine = "0x8664"
        and machineMask = 0 and sectionMask = "0x60300020"]
    unfolding Let_def s by simp
qed

subsection \<open>C4: the string-table size and the name offsets\<close>

text \<open>
  C4. For all start and end names, the string-table size field of the emitted object (the
  4 bytes behind the two symbol records) is \<open>4 + (len startName + 1) + (len endName + 1)\<close>,
  the name offset of the start symbol (the word \<open>Long\<close> of its record) is 4, and the name
  offset of the end symbol is \<open>4 + len startName + 1\<close>.

  The fields are 32-bit fields and hold these sums as 32-bit values; the last conjunct reads
  them as natural numbers, for names whose sum fits the field. The hypothesis: the buffer at
  \<^verbatim>\<open>data\<close> holds at least \<open>n\<close> bytes.
\<close>

theorem string_table_offsets:
  assumes "unat sz \<le> length data"
  shows
    "let obj = emitted out (writeObject data sz out startName endName sectionName
                 machine machineMask sectionMask);
         startSym = parse_IMAGE_SYMBOL (drop (symbolTableAt sz) obj);
         endSym = parse_IMAGE_SYMBOL (drop (symbolTableAt sz + 18) obj);
         tableSize = rd32 (drop (symbolTableAt sz + 36) obj)
     in tableSize = of_nat (4 + (strlen startName + 1) + (strlen endName + 1))
      \<and> Long startSym = 4
      \<and> Long endSym = of_nat (4 + strlen startName + 1)
      \<and> (4 + (strlen startName + 1) + (strlen endName + 1) < 2 ^ 32 \<longrightarrow>
           unat tableSize = 4 + (strlen startName + 1) + (strlen endName + 1)
           \<and> unat (Long endSym) = 4 + strlen startName + 1)"
proof -
  have t: "symbolTableSize startName endName
           = of_nat (4 + (strlen startName + 1) + (strlen endName + 1))"
    by (simp add: symbolTableSize_def endNameOffset_def startNameOffset_def
        startNameLength_def endNameLength_def)
  have e: "Long (endSymbol sz startName) = of_nat (4 + strlen startName + 1)"
    by (simp add: endSymbol_def endNameOffset_def startNameOffset_def startNameLength_def)
  have s: "Long startSymbol = 4"
    by (simp add: startSymbol_def startNameOffset_def)
  have u: "unat (of_nat (4 + (strlen startName + 1) + (strlen endName + 1)) :: u32)
             = 4 + (strlen startName + 1) + (strlen endName + 1)
           \<and> unat (of_nat (4 + strlen startName + 1) :: u32) = 4 + strlen startName + 1"
    if "4 + (strlen startName + 1) + (strlen endName + 1) < 2 ^ 32"
    using that by (simp only: unat_of_nat_u32)
  show ?thesis
    unfolding Let_def emitted_startSymbol [OF assms] emitted_endSymbol [OF assms]
      emitted_symbolTableSize [OF assms] t e s
    using u by blast
qed

theorem string_table_offsets_witness:
  "unat (5 :: u32) \<le> length (replicate 5 (0xAA :: u8))
   \<and> 4 + (strlen ''_binary_start'' + 1) + (strlen ''_binary_end'' + 1) < 2 ^ 32
   \<and> (let obj = emitted [] (writeObject (replicate 5 0xAA) 5 [] ''_binary_start''
                   ''_binary_end'' ''.text'' 0x8664 0 0x60300020);
          startSym = parse_IMAGE_SYMBOL (drop 68 obj);
          endSym = parse_IMAGE_SYMBOL (drop 86 obj);
          tableSize = rd32 (drop 104 obj)
      in tableSize = 30 \<and> unat tableSize = 30
       \<and> Long startSym = 4
       \<and> Long endSym = 18 \<and> unat (Long endSym) = 18)"
proof -
  have h: "unat (5 :: u32) \<le> length (replicate 5 (0xAA :: u8))" by simp
  have l: "strlen ''_binary_start'' = 13" "strlen ''_binary_end'' = 11"
    by (simp_all add: strlen_def c_str_def NUL_def)
  have s: "symbolTableAt 5 = 68"
    by (simp add: symbolTableAt_def pad_def sizeof_IMAGE_FILE_HEADER_def
        sizeof_IMAGE_SECTION_HEADER_def)
  show ?thesis
    using string_table_offsets [OF h, where out = "[]" and startName = "''_binary_start''"
        and endName = "''_binary_end''" and sectionName = "''.text''" and machine = "0x8664"
        and machineMask = 0 and sectionMask = "0x60300020"]
    unfolding Let_def s l by simp
qed

subsection \<open>C5: \<^verbatim>\<open>pad\<close> and the padding bytes\<close>

text \<open>
  C5. For every blob size \<open>n\<close>, \<open>pad n = ((n + 3) / 4) * 4\<close>, the difference
  \<open>pad n - n\<close> is one of 0, 1, 2 and 3, and the \<open>pad n - n\<close> bytes that
  \<^verbatim>\<open>writeObject\<close> writes behind the \<open>n\<close> raw data bytes (which start at offset 60
  of the object) are all zero. They are extra bytes: the \<open>n\<close> bytes in front of them are
  the data, the symbol table with the string table follows right behind them, and the
  length of the object counts them. With them the raw data fills the \<open>pad n\<close> bytes that
  the section header announces.

  \<open>n\<close> is an \<^verbatim>\<open>unsigned\<close>, and the first two statements are statements of
  \<^verbatim>\<open>unsigned\<close> arithmetic, in which they hold for every \<open>n\<close>. Read as natural numbers
  they hold as long as \<open>n + 3\<close> does not wrap around, which the third conjunct states.
\<close>

theorem pad_rounds_up_to_4:
  "pad n = (n + 3) div 4 * 4
   \<and> pad n - n \<in> {0, 1, 2, 3}
   \<and> (unat n + 3 < 2 ^ 32 \<longrightarrow>
        unat (pad n) = (unat n + 3) div 4 * 4 \<and> unat (pad n) = unat n + unat (pad n - n))
   \<and> (unat n \<le> length data \<longrightarrow>
        (let obj = emitted out (writeObject data n out startName endName sectionName
                     machine machineMask sectionMask)
         in take (unat (pad n - n)) (drop (60 + unat n) obj) = replicate (unat (pad n - n)) 0
          \<and> take (unat n) (drop 60 obj) = take (unat n) data
          \<and> drop (60 + unat n + unat (pad n - n)) obj
              = bytes_IMAGE_SYMBOL startSymbol
                @ bytes_IMAGE_SYMBOL (endSymbol n startName)
                @ le32 (symbolTableSize startName endName)
                @ take (unat (startNameLength startName)) (c_array startName)
                @ take (unat (endNameLength endName)) (c_array endName)
          \<and> length obj
              = 60 + unat n + unat (pad n - n) + 18 + 18 + 4
                + unat (startNameLength startName) + unat (endNameLength endName)
          \<and> SizeOfRawData (parse_IMAGE_SECTION_HEADER (drop 20 obj)) = pad n))"
proof -
  let ?obj = "emitted out (writeObject data n out startName endName sectionName
                     machine machineMask sectionMask)"
  have a: "unat (pad n) = unat n + unat (pad n - n)" if "unat n + 3 < 2 ^ 32"
    unfolding unat_pad_no_wrap [OF that] unat_pad_minus unat_plus_3_mod_4 by presburger
  have at: "60 + unat n + unat (pad n - n) = symbolTableAt n"
    by (simp add: symbolTableAt_def sizeof_IMAGE_FILE_HEADER_def
        sizeof_IMAGE_SECTION_HEADER_def)
  have b: "take (unat (pad n - n)) (drop (60 + unat n) ?obj) = replicate (unat (pad n - n)) 0"
    and c: "take (unat n) (drop 60 ?obj) = take (unat n) data"
    if "unat n \<le> length data"
    using that by (simp_all add: writeObject_layout)
  have d: "SizeOfRawData (parse_IMAGE_SECTION_HEADER (drop 20 ?obj)) = pad n"
    unfolding emitted_sectionHeader by (simp add: sectionHeader_def)
  have e: "length ?obj = 60 + unat n + unat (pad n - n) + 18 + 18 + 4
                + unat (startNameLength startName) + unat (endNameLength endName)"
    if "unat n \<le> length data"
    unfolding length_emitted_writeObject [OF that] at [symmetric] by simp
  show ?thesis
    unfolding Let_def at
    using a b c d e pad_div [of n] pad_minus_cases [of n] unat_pad_no_wrap [of n]
      drop_symbolTableAt [of n data out startName endName sectionName machine machineMask
        sectionMask]
    unfolding at
    by blast
qed

theorem pad_rounds_up_to_4_witness:
  "unat (5 :: u32) + 3 < 2 ^ 32
   \<and> unat (5 :: u32) \<le> length (replicate 5 (0xAA :: u8))
   \<and> pad 5 = 8
   \<and> unat (pad 5) = unat (5 :: u32) + unat (pad 5 - 5)
   \<and> (let obj = emitted [] (writeObject (replicate 5 0xAA) 5 [] ''_binary_start''
                   ''_binary_end'' ''.text'' 0x8664 0 0x60300020)
      in take 3 (drop 65 obj) = [0, 0, 0]
       \<and> take 5 (drop 60 obj) = [0xAA, 0xAA, 0xAA, 0xAA, 0xAA]
       \<and> drop 68 obj
           = bytes_IMAGE_SYMBOL startSymbol
             @ bytes_IMAGE_SYMBOL (endSymbol 5 ''_binary_start'')
             @ le32 (symbolTableSize ''_binary_start'' ''_binary_end'')
             @ take 14 (c_array ''_binary_start'')
             @ take 12 (c_array ''_binary_end'')
       \<and> length obj = 134
       \<and> SizeOfRawData (parse_IMAGE_SECTION_HEADER (drop 20 obj)) = 8)"
proof -
  have p: "pad 5 - 5 = 3" "pad 5 = 8" by (simp_all add: pad_def)
  have r: "replicate 3 (0 :: u8) = [0, 0, 0]"
    "replicate 5 (0xAA :: u8) = [0xAA, 0xAA, 0xAA, 0xAA, 0xAA]"
    by (simp_all add: numeral_eq_Suc)
  have l: "unat (startNameLength ''_binary_start'') = 14"
    "unat (endNameLength ''_binary_end'') = 12"
    by (simp_all add: startNameLength_def endNameLength_def strlen_def c_str_def NUL_def)
  show ?thesis
    using pad_rounds_up_to_4 [of 5 "replicate 5 0xAA" "[]" "''_binary_start''"
        "''_binary_end''" "''.text''" "0x8664" 0 "0x60300020"]
    unfolding Let_def p l
    by (simp add: r)
qed

subsection \<open>C6: the one failure\<close>

text \<open>
  C6. \<^verbatim>\<open>write\<close> returns false if and only if the alignment is not one of 0, 1, 2, 4
  and 8. When it returns false it has passed the offending value to \<^verbatim>\<open>fprintf\<close> with
  the format \<^verbatim>\<open>unsupported alignment: %d\<close>, and the sink is as it was: no byte is
  written. For each of the five alignments it returns true, whatever the data size, the
  names and the access flags are, and prints nothing.
\<close>

theorem write_fails_iff_unsupported_alignment:
  "let r = PEObjectWriter_write BytesPerWord Writable Executable data n out startName endName
             alignment accessFlags err
   in (\<not> fst r \<longleftrightarrow> alignment \<notin> {0, 1, 2, 4, 8})
    \<and> (alignment \<notin> {0, 1, 2, 4, 8} \<longrightarrow>
         \<not> fst r
         \<and> snd (snd r) = err @ [(''unsupported alignment: %d\<newline>'', alignment)]
         \<and> fst (snd r) = out
         \<and> emitted out (fst (snd r)) = [])
    \<and> (alignment \<in> {0, 1, 2, 4, 8} \<longrightarrow> fst r \<and> snd (snd r) = err)"
proof (cases "alignment \<in> {0, 1, 2, 4, 8}")
  case True
  show ?thesis
    unfolding write_supported [OF True] Let_def using True by simp
next
  case False
  show ?thesis
    unfolding write_unsupported [OF False] Let_def using False by (simp add: emitted_def)
qed

theorem write_fails_iff_unsupported_alignment_witness:
  "(3 :: u32) \<notin> {0, 1, 2, 4, 8}
   \<and> PEObjectWriter_write 8 2 4 (replicate 5 0xAA) 5 [] ''_binary_start'' ''_binary_end''
        3 4 []
      = (False, [], [(''unsupported alignment: %d\<newline>'', 3)])"
  using write_fails_iff_unsupported_alignment [where alignment = 3 and BytesPerWord = 8
      and Writable = 2 and Executable = 4 and data = "replicate 5 0xAA" and n = 5
      and out = "[]" and startName = "''_binary_start''" and endName = "''_binary_end''"
      and accessFlags = 4 and err = "[]"]
  unfolding Let_def by (simp add: prod_eq_iff)

subsection \<open>C7: the section name and the section characteristics\<close>

text \<open>
  C7. In the object that a successful \<^verbatim>\<open>write\<close> emits, the section header has the
  name \<^verbatim>\<open>.rwx\<close> and the flags writable, executable and contains-code when the access
  flags have both Writable and Executable; the name \<^verbatim>\<open>.data\<close> and the flag writable
  when they have Writable and not Executable; the name \<^verbatim>\<open>.text\<close> and the flags
  executable and contains-code when they do not have Writable (so also when they have
  neither). In each case the readable flag and the alignment class (1 byte for the
  alignments 0 and 1, 2 bytes for 2, 4 bytes for 4, 8 bytes for 8) are set as well, and
  nothing else is. The name field is the name followed by NUL bytes up to 8 bytes.
\<close>

theorem section_name_and_characteristics:
  assumes "alignment \<in> {0, 1, 2, 4, 8}"
  shows
    "let obj = emitted out (fst (snd (PEObjectWriter_write BytesPerWord Writable Executable
                 data n out startName endName alignment accessFlags err)));
         sh = parse_IMAGE_SECTION_HEADER (drop 20 obj);
         alignmentClass =
           (if alignment = 0 \<or> alignment = 1 then IMAGE_SCN_ALIGN_1BYTES
            else if alignment = 2 then IMAGE_SCN_ALIGN_2BYTES
            else if alignment = 4 then IMAGE_SCN_ALIGN_4BYTES
            else IMAGE_SCN_ALIGN_8BYTES)
     in (accessFlags AND Writable \<noteq> 0 \<and> accessFlags AND Executable \<noteq> 0 \<longrightarrow>
           Name sh = map of_char ''.rwx'' @ replicate 4 0
           \<and> SectionCharacteristics sh =
               alignmentClass OR IMAGE_SCN_MEM_READ OR IMAGE_SCN_MEM_WRITE
               OR IMAGE_SCN_MEM_EXECUTE OR IMAGE_SCN_CNT_CODE)
      \<and> (accessFlags AND Writable \<noteq> 0 \<and> accessFlags AND Executable = 0 \<longrightarrow>
           Name sh = map of_char ''.data'' @ replicate 3 0
           \<and> SectionCharacteristics sh =
               alignmentClass OR IMAGE_SCN_MEM_READ OR IMAGE_SCN_MEM_WRITE)
      \<and> (accessFlags AND Writable = 0 \<longrightarrow>
           Name sh = map of_char ''.text'' @ replicate 3 0
           \<and> SectionCharacteristics sh =
               alignmentClass OR IMAGE_SCN_MEM_READ OR IMAGE_SCN_MEM_EXECUTE
               OR IMAGE_SCN_CNT_CODE)"
proof -
  have c: "c_str ''.rwx'' = ''.rwx''" "c_str ''.data'' = ''.data''" "c_str ''.text'' = ''.text''"
    by (simp_all add: c_str_def NUL_def)
  have r: "replicate 4 (0 :: u8) = [0, 0, 0, 0]" "replicate 3 (0 :: u8) = [0, 0, 0]"
    by (simp_all add: numeral_eq_Suc)
  have s: "SectionCharacteristics (sectionHeader sz sectionName sectionMask) = sectionMask"
    for sz sectionName sectionMask
    by (simp add: sectionHeader_def)
  show ?thesis
    unfolding write_supported [OF assms] Let_def fst_conv snd_conv emitted_sectionHeader s
    by (simp add: Name_sectionHeader c r ac_simps)
qed

theorem section_name_and_characteristics_witness:
  "(4 :: u32) \<in> {0, 1, 2, 4, 8}
   \<and> (4 :: u32) AND 2 = 0
   \<and> (let obj = emitted [] (fst (snd (PEObjectWriter_write 8 2 4 (replicate 5 0xAA) 5 []
                   ''_binary_start'' ''_binary_end'' 4 4 [])));
          sh = parse_IMAGE_SECTION_HEADER (drop 20 obj)
      in Name sh = [0x2E, 0x74, 0x65, 0x78, 0x74, 0, 0, 0]
       \<and> SectionCharacteristics sh = 0x60300020)"
proof -
  have h: "(4 :: u32) \<in> {0, 1, 2, 4, 8}" by simp
  have r: "replicate 3 (0 :: u8) = [0, 0, 0]"
    by (simp add: numeral_eq_Suc)
  show ?thesis
    using section_name_and_characteristics [OF h, where BytesPerWord = 8 and n = 5
        and out = "[]" and Writable = 2 and Executable = 4 and data = "replicate 5 0xAA"
        and startName = "''_binary_start''" and endName = "''_binary_end''"
        and accessFlags = 4 and err = "[]"]
    unfolding Let_def
    by (simp add: r IMAGE_SCN_ALIGN_4BYTES_def IMAGE_SCN_MEM_READ_def
        IMAGE_SCN_MEM_EXECUTE_def IMAGE_SCN_CNT_CODE_def)
qed

subsection \<open>C8: the 8-byte name field of the section header\<close>

text \<open>
  C8. For every section name passed to \<^verbatim>\<open>writeObject\<close>, the name field of the emitted
  section header (the 8 bytes at offset 20 of the object) holds the first \<open>min len 8\<close>
  bytes of the name, followed by NUL bytes when the name is shorter than 8; a name of 8 or
  more bytes fills the field with its first 8 bytes, and the field holds no NUL.
\<close>

theorem section_name_field:
  "let obj = emitted out (writeObject data sz out startName endName sectionName
               machine machineMask sectionMask);
       field = take 8 (drop 20 obj);
       name = map of_char (c_str sectionName)
   in length field = 8
    \<and> length name = strlen sectionName
    \<and> field = take (min (strlen sectionName) 8) name @ replicate (8 - strlen sectionName) 0
    \<and> (8 \<le> strlen sectionName \<longrightarrow> field = take 8 name \<and> 0 \<notin> set field)"
proof -
  have f: "take 8 (drop 20 (emitted out (writeObject data sz out startName endName sectionName
               machine machineMask sectionMask)))
           = Name (sectionHeader sz sectionName sectionMask)"
    using emitted_sectionHeader [of out data sz startName endName sectionName machine
        machineMask sectionMask, THEN arg_cong, of Name]
    by (simp add: parse_IMAGE_SECTION_HEADER_def)
  have z: "(0 :: u8) \<notin> set (take 8 (map of_char (c_str sectionName)))"
    using c_str_nonzero [of sectionName] by (auto dest: in_set_takeD)
  show ?thesis
    unfolding Let_def f Name_sectionHeader
    using z by (auto simp add: strlen_def min_def)
qed

theorem section_name_field_witness:
  "8 \<le> strlen ''.longname1''
   \<and> take 8 (drop 20 (emitted [] (writeObject (replicate 5 0xAA) 5 [] ''_binary_start''
        ''_binary_end'' ''.longname1'' 0x8664 0 0x60300020)))
      = map of_char ''.longnam''"
proof -
  have l: "strlen ''.longname1'' = 10" "c_str ''.longname1'' = ''.longname1''"
    by (simp_all add: strlen_def c_str_def NUL_def)
  show ?thesis
    using section_name_field [where sectionName = "''.longname1''" and out = "[]"
        and data = "replicate 5 0xAA" and sz = 5 and startName = "''_binary_start''"
        and endName = "''_binary_end''" and machine = "0x8664" and machineMask = 0
        and sectionMask = "0x60300020"]
    unfolding Let_def l by simp
qed

subsection \<open>C9: the 32-bit and the 64-bit writer\<close>

text \<open>
  C9. On the same input, \<^verbatim>\<open>WindowsPlatform<4>\<close> and \<^verbatim>\<open>WindowsPlatform<8>\<close> return the
  same flag and print the same, and the objects they emit have the same length and the same
  byte at every position other than 0, 1 (the machine field of the file header) and 18, 19
  (its characteristics); everything behind the file header is the same.
\<close>

theorem word_size_independence:
  "let r4 = PEObjectWriter_write 4 Writable Executable data n out startName endName
              alignment accessFlags err;
       r8 = PEObjectWriter_write 8 Writable Executable data n out startName endName
              alignment accessFlags err;
       obj4 = emitted out (fst (snd r4));
       obj8 = emitted out (fst (snd r8))
   in fst r4 = fst r8
    \<and> snd (snd r4) = snd (snd r8)
    \<and> length obj4 = length obj8
    \<and> (\<forall>i < length obj4. i \<notin> {0, 1, 18, 19} \<longrightarrow> obj4 ! i = obj8 ! i)
    \<and> drop 20 obj4 = drop 20 obj8"
proof (cases "alignment \<in> {0, 1, 2, 4, 8}")
  case True
  show ?thesis
    unfolding write_supported [OF True] Let_def fst_conv snd_conv writeObject_layout
      emitted_append
    using nth_fileHeader_word_size by simp
next
  case False
  show ?thesis
    unfolding write_unsupported [OF False] Let_def by simp
qed

theorem word_size_independence_witness:
  "let r4 = PEObjectWriter_write 4 2 4 (replicate 5 0xAA) 5 [] ''_binary_start''
              ''_binary_end'' 4 4 [];
       r8 = PEObjectWriter_write 8 2 4 (replicate 5 0xAA) 5 [] ''_binary_start''
              ''_binary_end'' 4 4 [];
       obj4 = emitted [] (fst (snd r4));
       obj8 = emitted [] (fst (snd r8))
   in 2 < length obj4
    \<and> (2 :: nat) \<notin> {0, 1, 18, 19}
    \<and> obj4 ! 2 = obj8 ! 2
    \<and> length obj4 = length obj8
    \<and> drop 20 obj4 = drop 20 obj8"
proof -
  have h: "(4 :: u32) \<in> {0, 1, 2, 4, 8}" by simp
  have l: "2 < length (emitted [] (fst (snd (PEObjectWriter_write 4 2 4 (replicate 5 0xAA) 5 []
             ''_binary_start'' ''_binary_end'' 4 4 []))))"
    unfolding write_supported [OF h] fst_conv snd_conv writeObject_layout emitted_append
    by simp
  show ?thesis
    using l word_size_independence [where alignment = 4
      and Writable = 2 and Executable = 4 and data = "replicate 5 0xAA" and n = 5
      and out = "[]" and startName = "''_binary_start''" and endName = "''_binary_end''"
      and accessFlags = 4 and err = "[]"]
    unfolding Let_def by simp
qed

subsection \<open>C10: the fields that stay zero\<close>

text \<open>
  C10. In the object that \<^verbatim>\<open>writeObject\<close> emits, these fields are zero: the time stamp
  and the optional-header size of the file header; the physical address (virtual size), the
  virtual address, the pointers to relocations and to line numbers and the two counts of the
  section header; the type and the short-name word of both symbol records.

  The fields are fields of records that are there: the object has its full length, the 20,
  40, 18 and 18 bytes read are the memory images of the four records, and the fields that
  \<^verbatim>\<open>writeObject\<close> sets to something else are read back from the same bytes with their
  values. The hypothesis: the buffer at \<^verbatim>\<open>data\<close> holds at least \<open>n\<close> bytes.
\<close>

theorem unmentioned_fields_zero:
  assumes "unat sz \<le> length data"
  shows
    "let obj = emitted out (writeObject data sz out startName endName sectionName
                 machine machineMask sectionMask);
         fh = parse_IMAGE_FILE_HEADER obj;
         sh = parse_IMAGE_SECTION_HEADER (drop 20 obj);
         startSym = parse_IMAGE_SYMBOL (drop (symbolTableAt sz) obj);
         endSym = parse_IMAGE_SYMBOL (drop (symbolTableAt sz + 18) obj)
     in TimeDateStamp fh = 0 \<and> SizeOfOptionalHeader fh = 0
      \<and> Misc sh = 0 \<and> VirtualAddress sh = 0
      \<and> PointerToRelocations sh = 0 \<and> PointerToLinenumbers sh = 0
      \<and> NumberOfRelocations sh = 0 \<and> NumberOfLinenumbers sh = 0
      \<and> Type startSym = 0 \<and> Short startSym = 0
      \<and> Type endSym = 0 \<and> Short endSym = 0
      \<and> length obj = symbolTableAt sz + 18 + 18 + 4
            + unat (startNameLength startName) + unat (endNameLength endName)
      \<and> take 20 obj = bytes_IMAGE_FILE_HEADER fh
      \<and> take 40 (drop 20 obj) = bytes_IMAGE_SECTION_HEADER sh
      \<and> take 18 (drop (symbolTableAt sz) obj) = bytes_IMAGE_SYMBOL startSym
      \<and> take 18 (drop (symbolTableAt sz + 18) obj) = bytes_IMAGE_SYMBOL endSym
      \<and> NumberOfSections fh = 1 \<and> NumberOfSymbols fh = 2
      \<and> PointerToRawData sh = 60
      \<and> StorageClass startSym = 2 \<and> Long startSym = 4
      \<and> StorageClass endSym = 2 \<and> Value endSym = sz"
proof -
  let ?obj = "emitted out (writeObject data sz out startName endName sectionName
                 machine machineMask sectionMask)"
  have f: "take 20 ?obj = bytes_IMAGE_FILE_HEADER (fileHeader sz machine machineMask)"
    by (simp add: writeObject_layout)
  have s: "take 40 (drop 20 ?obj)
           = bytes_IMAGE_SECTION_HEADER (sectionHeader sz sectionName sectionMask)"
    by (simp add: writeObject_layout)
  have a: "take 18 (drop (symbolTableAt sz) ?obj) = bytes_IMAGE_SYMBOL startSymbol"
    by (simp add: drop_symbolTableAt [OF assms])
  have "drop (symbolTableAt sz + 18) ?obj = drop 18 (drop (symbolTableAt sz) ?obj)"
    by (simp add: add.commute)
  then have b: "take 18 (drop (symbolTableAt sz + 18) ?obj)
                = bytes_IMAGE_SYMBOL (endSymbol sz startName)"
    by (simp add: drop_symbolTableAt [OF assms])
  show ?thesis
    unfolding Let_def emitted_startSymbol [OF assms] emitted_endSymbol [OF assms]
      emitted_fileHeader emitted_sectionHeader length_emitted_writeObject [OF assms] f s a b
    by (simp add: startSymbol_def endSymbol_def fileHeader_def sectionHeader_def
        sectionCount_def symbolCount_def startNameOffset_def
        sizeof_IMAGE_FILE_HEADER_def sizeof_IMAGE_SECTION_HEADER_def)
qed

theorem unmentioned_fields_zero_witness:
  "unat (5 :: u32) \<le> length (replicate 5 (0xAA :: u8))
   \<and> (let obj = emitted [] (writeObject (replicate 5 0xAA) 5 [] ''_binary_start''
                   ''_binary_end'' ''.text'' 0x8664 0 0x60300020);
          fh = parse_IMAGE_FILE_HEADER obj;
          sh = parse_IMAGE_SECTION_HEADER (drop 20 obj);
          startSym = parse_IMAGE_SYMBOL (drop 68 obj);
          endSym = parse_IMAGE_SYMBOL (drop 86 obj)
      in TimeDateStamp fh = 0 \<and> SizeOfOptionalHeader fh = 0
       \<and> Misc sh = 0 \<and> VirtualAddress sh = 0
       \<and> PointerToRelocations sh = 0 \<and> PointerToLinenumbers sh = 0
       \<and> NumberOfRelocations sh = 0 \<and> NumberOfLinenumbers sh = 0
       \<and> Type startSym = 0 \<and> Short startSym = 0
       \<and> Type endSym = 0 \<and> Short endSym = 0
       \<and> length obj = 134
       \<and> take 20 obj = bytes_IMAGE_FILE_HEADER fh
       \<and> take 40 (drop 20 obj) = bytes_IMAGE_SECTION_HEADER sh
       \<and> take 18 (drop 68 obj) = bytes_IMAGE_SYMBOL startSym
       \<and> take 18 (drop 86 obj) = bytes_IMAGE_SYMBOL endSym
       \<and> NumberOfSections fh = 1 \<and> NumberOfSymbols fh = 2
       \<and> PointerToRawData sh = 60
       \<and> StorageClass startSym = 2 \<and> Long startSym = 4
       \<and> StorageClass endSym = 2 \<and> Value endSym = 5)"
proof -
  have h: "unat (5 :: u32) \<le> length (replicate 5 (0xAA :: u8))" by simp
  have s: "symbolTableAt 5 = 68"
    by (simp add: symbolTableAt_def pad_def sizeof_IMAGE_FILE_HEADER_def
        sizeof_IMAGE_SECTION_HEADER_def)
  have l: "unat (startNameLength ''_binary_start'') = 14"
    "unat (endNameLength ''_binary_end'') = 12"
    by (simp_all add: startNameLength_def endNameLength_def strlen_def c_str_def NUL_def)
  show ?thesis
    using unmentioned_fields_zero [OF h, where out = "[]" and startName = "''_binary_start''"
        and endName = "''_binary_end''" and sectionName = "''.text''" and machine = "0x8664"
        and machineMask = 0 and sectionMask = "0x60300020"]
    unfolding Let_def s l by simp
qed

end
